theory Spec2Isabelle
  imports Main "HOL-Library.Word"
begin

section \<open>Cluster transport: handshake, reconnection, send queues, batching, framing\<close>

text \<open>
  A shallow embedding of the parts of \<^verbatim>\<open>iocore/cluster/connection.cc\<close> and
  \<^verbatim>\<open>iocore/cluster/nio.cc\<close> that the verified properties are about.

  Conventions.
  \<^item> C \<^verbatim>\<open>int\<close> values that stay far from the 32-bit limits (byte counts bounded by the
    message length ceiling, array cursors, millisecond intervals) are \<open>int\<close>.
  \<^item> \<^verbatim>\<open>uint32_t\<close> values whose wrap-around matters (the version numbers of the hello
    message) are \<open>32 word\<close>.
  \<^item> \<^verbatim>\<open>errno\<close> codes are the Linux values.
  \<^item> Constants that the two files use but do not define (they come from headers) are
    fields of the record \<open>cluster_consts\<close>, passed to every function that reads one.
\<close>

subsection \<open>Error codes\<close>

definition EINTR :: int where "EINTR = 4"
definition EIO :: int where "EIO = 5"
definition EAGAIN :: int where "EAGAIN = 11"
definition EWOULDBLOCK :: int where "EWOULDBLOCK = 11"
definition EINVAL :: int where "EINVAL = 22"
definition ENOSPC :: int where "ENOSPC = 28"
definition ECONNRESET :: int where "ECONNRESET = 104"

subsection \<open>Constants taken from headers\<close>

record cluster_consts =
  CLUSTER_MAJOR_VERSION :: "32 word"
  CLUSTER_MINOR_VERSION :: "32 word"
  MIN_CLUSTER_MAJOR_VERSION :: "32 word"
  MIN_CLUSTER_MINOR_VERSION :: "32 word"
  FUNC_ID_CLUSTER_HELLO_REQUEST :: int
  FUNC_ID_CLUSTER_HELLO_RESPONSE :: int
  SIZEOF_HelloMessage :: int
  MSG_HEADER_LENGTH :: int
  MAX_MSG_LENGTH :: int
  WRITEV_ARRAY_SIZE :: int
  WRITEV_ITEM_ONCE :: int
  WRITE_MAX_COMBINE_BYTES :: int
  read_buffer_size :: int

definition PRIORITY_COUNT :: nat where "PRIORITY_COUNT = 3"

subsection \<open>Handshake (\<^verbatim>\<open>connection.cc\<close>)\<close>

datatype ConnectType = CONNECT_TYPE_CLIENT | CONNECT_TYPE_SERVER

record MsgHeader =
  func_id :: int
  data_len :: int
  aligned_data_len :: int
  msg_seq :: int

record HelloMessage =
  major :: "32 word"
  minor :: "32 word"
  min_major :: "32 word"
  min_minor :: "32 word"

text \<open>\<^verbatim>\<open>BYTE_ALIGN8\<close>: round up to a multiple of 8.\<close>

definition BYTE_ALIGN8 :: "int \<Rightarrow> int" where
  "BYTE_ALIGN8 n = ((n + 7) div 8) * 8"

text \<open>
  \<^verbatim>\<open>fill_send_buffer\<close>: the header and the hello payload a node sends. The session id
  (own ip, current time) plays no role in the negotiation and is left out.
\<close>

definition fill_send_buffer :: "cluster_consts \<Rightarrow> int \<Rightarrow> MsgHeader \<times> HelloMessage" where
  "fill_send_buffer K fid =
     (\<lparr>func_id = fid,
       data_len = SIZEOF_HelloMessage K,
       aligned_data_len = BYTE_ALIGN8 (SIZEOF_HelloMessage K),
       msg_seq = 11111\<rparr>,
      \<lparr>major = CLUSTER_MAJOR_VERSION K,
       minor = CLUSTER_MINOR_VERSION K,
       min_major = MIN_CLUSTER_MAJOR_VERSION K,
       min_minor = MIN_CLUSTER_MINOR_VERSION K\<rparr>)"

text \<open>
  The version loop of \<^verbatim>\<open>deal_hello_message\<close>:
  \<^verbatim>\<open>for (major=pHello->major; major>=pHello->min_major; --major) {
     if ((major >= MIN_CLUSTER_MAJOR_VERSION) && (major <= CLUSTER_MAJOR_VERSION))
       proto_major = major;
   }\<close>
  \<^verbatim>\<open>major\<close> is a \<^verbatim>\<open>uint32_t\<close>: \<open>--major\<close> wraps from 0 to \<open>2^32 - 1\<close>, and the
  comparisons are unsigned. \<^verbatim>\<open>proto_major\<close> is an \<^verbatim>\<open>int\<close>: the assignment reads
  the word as two's complement. The loop has no \<^verbatim>\<open>break\<close>. A run that never leaves
  the loop is the value \<open>None\<close>.
\<close>

partial_function (option) hello_major_loop ::
  "cluster_consts \<Rightarrow> 32 word \<Rightarrow> 32 word \<Rightarrow> int \<Rightarrow> int option" where
  "hello_major_loop K mj min_mj proto_major =
     (if mj \<ge> min_mj then
        hello_major_loop K (mj - 1) min_mj
          (if mj \<ge> MIN_CLUSTER_MAJOR_VERSION K \<and> mj \<le> CLUSTER_MAJOR_VERSION K
           then sint mj else proto_major)
      else Some proto_major)"

text \<open>
  The outcome of \<^verbatim>\<open>deal_hello_message\<close>: an error code, or the negotiated
  \<^verbatim>\<open>(proto_major, proto_minor)\<close> together with the two values the function stores in
  the peer's machine record (\<^verbatim>\<open>msg_proto_major\<close>, \<^verbatim>\<open>msg_proto_minor\<close>: the
  peer's own major and minor).
\<close>

datatype hello_result =
  Rejected int
  | Negotiated (proto_major: int) (proto_minor: int)
      (msg_proto_major: "32 word") (msg_proto_minor: "32 word")

definition deal_hello_message ::
  "cluster_consts \<Rightarrow> ConnectType \<Rightarrow> MsgHeader \<times> HelloMessage \<Rightarrow> hello_result option" where
  "deal_hello_message K connect_type data =
     (let pHeader = fst data; pHelloMessage = snd data in
      if data_len pHeader \<noteq> SIZEOF_HelloMessage K then Some (Rejected EINVAL)
      else
        let expect_func_id =
              (if connect_type = CONNECT_TYPE_CLIENT then FUNC_ID_CLUSTER_HELLO_RESPONSE K
               else FUNC_ID_CLUSTER_HELLO_REQUEST K)
        in
        if func_id pHeader \<noteq> expect_func_id then Some (Rejected EINVAL)
        else
          case hello_major_loop K (major pHelloMessage) (min_major pHelloMessage) (- 1) of
            None \<Rightarrow> None
          | Some pm \<Rightarrow>
              if pm > 0 then
                Some (Negotiated pm
                        (if pm = sint (major pHelloMessage) then sint (minor pHelloMessage) else 0)
                        (major pHelloMessage) (minor pHelloMessage))
              else Some (Rejected EINVAL))"

subsection \<open>Send queues and socket context (\<^verbatim>\<open>nio.cc\<close>)\<close>

text \<open>
  An outbound message. \<open>blocks\<close> is the chain of \<^verbatim>\<open>IOBufferBlock\<close>s of an object
  payload: each block is represented by its \<^verbatim>\<open>read_avail()\<close>. The inline buffer
  (\<^verbatim>\<open>mini_buff\<close>) of the other payload form carries no length of its own:
  the code reads it through \<^verbatim>\<open>header.data_len\<close>.
\<close>

datatype DataType = DATA_TYPE_OBJECT | DATA_TYPE_BUFFER

record OutMessage =
  header :: MsgHeader
  data_type :: DataType
  blocks :: "int list"
  bytes_sent :: int

record Stats =
  push_msg_count :: int
  push_msg_bytes :: int
  fail_msg_count :: int
  fail_msg_bytes :: int
  send_retry_count :: int
  call_writev_count :: int
  send_bytes :: int
  send_msg_count :: int
  drop_msg_count :: int
  drop_bytes :: int

text \<open>
  A \<^verbatim>\<open>MessageQueue\<close> is a singly linked list with \<^verbatim>\<open>head\<close> and \<^verbatim>\<open>tail\<close> pointers. It
  is modelled by the list of its messages from head to tail: \<^verbatim>\<open>head\<close> is the first
  element, \<^verbatim>\<open>tail\<close> the last, \<^verbatim>\<open>msg->next\<close> the following element, and both
  pointers are \<^verbatim>\<open>NULL\<close> for the empty list. A message handed to an enqueue function
  has \<^verbatim>\<open>next == NULL\<close>. The array \<^verbatim>\<open>send_queues[PRIORITY_COUNT]\<close> is a function
  of the index; \<open>stats\<close> are the counters of the owning worker
  (\<^verbatim>\<open>thread_context->stats\<close>), \<open>machine_dead\<close> is \<^verbatim>\<open>machine->dead\<close>.
\<close>

record SocketContext =
  sock :: int
  version :: "32 word"
  queue_index :: nat
  send_queues :: "nat \<Rightarrow> OutMessage list"
  stats :: Stats
  connect_type :: ConnectType
  machine_dead :: bool

definition PRIORITY_HIGH :: nat where "PRIORITY_HIGH = 0"
definition PRIORITY_MID :: nat where "PRIORITY_MID = 1"
definition PRIORITY_LOW :: nat where "PRIORITY_LOW = 2"

definition queue_head :: "OutMessage list \<Rightarrow> OutMessage option" where
  "queue_head q = (case q of [] \<Rightarrow> None | m # _ \<Rightarrow> Some m)"

definition queue_tail :: "OutMessage list \<Rightarrow> OutMessage option" where
  "queue_tail q = (if q = [] then None else Some (last q))"

definition msg_wire_bytes :: "cluster_consts \<Rightarrow> OutMessage \<Rightarrow> int" where
  "msg_wire_bytes K m = MSG_HEADER_LENGTH K + aligned_data_len (header m)"

text \<open>\<^verbatim>\<open>push_to_send_queue\<close>: returns the result code and the socket context after the call.\<close>

definition push_to_send_queue ::
  "cluster_consts \<Rightarrow> SocketContext \<Rightarrow> OutMessage \<Rightarrow> nat \<Rightarrow> 32 word \<Rightarrow> int \<times> SocketContext" where
  "push_to_send_queue K s pMessage prio sessionVersion =
     (let result =
            (if version s \<noteq> sessionVersion then EINVAL
             else if sock s < 0 then EINVAL
             else 0)
      in
      if result \<noteq> 0 then
        (result,
         s\<lparr>stats := (stats s)
              \<lparr>fail_msg_count := fail_msg_count (stats s) + 1,
               fail_msg_bytes := fail_msg_bytes (stats s) + msg_wire_bytes K pMessage\<rparr>\<rparr>)
      else
        (0,
         s\<lparr>send_queues := (send_queues s)(prio := send_queues s prio @ [pMessage]),
           stats := (stats s)
              \<lparr>push_msg_count := push_msg_count (stats s) + 1,
               push_msg_bytes := push_msg_bytes (stats s) + msg_wire_bytes K pMessage\<rparr>\<rparr>))"

text \<open>\<^verbatim>\<open>insert_into_send_queue_head\<close>.\<close>

definition insert_into_send_queue_head ::
  "cluster_consts \<Rightarrow> SocketContext \<Rightarrow> OutMessage \<Rightarrow> nat \<Rightarrow> int \<times> SocketContext" where
  "insert_into_send_queue_head K s pMessage prio =
     (let q = send_queues s prio;
          q' = (case q of
                  [] \<Rightarrow> [pMessage]
                | h # rest \<Rightarrow>
                    if bytes_sent h = 0 then pMessage # h # rest
                    else h # pMessage # rest)
      in
      (0,
       s\<lparr>send_queues := (send_queues s)(prio := q'),
         stats := (stats s)
            \<lparr>push_msg_count := push_msg_count (stats s) + 1,
             push_msg_bytes := push_msg_bytes (stats s) + msg_wire_bytes K pMessage\<rparr>\<rparr>))"

text \<open>
  \<^verbatim>\<open>clear_send_queue\<close>: the purge on connect and on close. The version is incremented
  once per priority; every queued message is released. Returns the released messages.
\<close>

definition clear_send_queue ::
  "cluster_consts \<Rightarrow> SocketContext \<Rightarrow> SocketContext \<times> OutMessage list" where
  "clear_send_queue K s =
     (let dropped = send_queues s 0 @ send_queues s 1 @ send_queues s 2;
          cnt = int (length dropped);
          bytes = sum_list (map (msg_wire_bytes K) dropped);
          s1 = s\<lparr>version := version s + 3,
                 send_queues := (\<lambda>i. if i < PRIORITY_COUNT then [] else send_queues s i)\<rparr>
      in
      (if cnt > 0 then
         s1\<lparr>stats := (stats s)
              \<lparr>drop_msg_count := drop_msg_count (stats s) + cnt,
               drop_bytes := drop_bytes (stats s) + bytes\<rparr>\<rparr>
       else s1,
       dropped))"

subsection \<open>Batched write (\<^verbatim>\<open>deal_write_event\<close>)\<close>

text \<open>
  \<^verbatim>\<open>get_iovec(blocks, iovec, size)\<close>: one iovec entry for every block with
  \<^verbatim>\<open>read_avail() > 0\<close>, at most \<open>sz\<close> (the argument \<^verbatim>\<open>size\<close>) entries. The result lists the lengths.
\<close>

fun get_iovec :: "int list \<Rightarrow> int \<Rightarrow> int \<Rightarrow> int list" where
  "get_iovec [] niov sz = []"
| "get_iovec (a # bs) niov sz =
     (if niov < sz then
        (if a > 0 then a # get_iovec bs (niov + 1) sz else get_iovec bs niov sz)
      else [])"

text \<open>
  \<^verbatim>\<open>consume(pMessage, l)\<close>: drops the blocks that \<open>l\<close> bytes cover and shortens the
  block where the count ends (\<^verbatim>\<open>IOBufferBlock::consume\<close> lowers \<^verbatim>\<open>read_avail()\<close>
  by its argument).
\<close>

fun consume_blocks :: "int list \<Rightarrow> int \<Rightarrow> int list" where
  "consume_blocks [] l = []"
| "consume_blocks (r # bs) l =
     (if l < r then (r - l) # bs else consume_blocks bs (l - r))"

definition consume :: "OutMessage \<Rightarrow> int \<Rightarrow> OutMessage" where
  "consume pMessage l = pMessage\<lparr>blocks := consume_blocks (blocks pMessage) l\<rparr>"

datatype BuffType = BUFF_TYPE_HEADER | BUFF_TYPE_DATA | BUFF_TYPE_PADDING

text \<open>
  One slot of \<^verbatim>\<open>write_vec\<close> together with the same slot of \<^verbatim>\<open>msg_indexes\<close>.
  The base address of the slot is not modelled.
\<close>

record iovec_entry =
  iov_len :: int
  priority :: nat
  index :: nat
  buff_type :: BuffType

text \<open>
  The local variables of the assembly loop. \<^verbatim>\<open>vec_count\<close> is the length of
  \<open>write_vec\<close>, \<^verbatim>\<open>msgs[p].msg_count\<close> the length of \<open>send_msgs p\<close>. A pointer to a
  queued message is its position in its queue, counted from the head:
  \<^verbatim>\<open>msgs[p].send_msgs[k]\<close> is \<open>send_msgs p ! k\<close>, a position in queue \<open>p\<close>.
\<close>

record fetch_state =
  write_vec :: "iovec_entry list"
  send_msgs :: "nat \<Rightarrow> nat list"
  total_msg_count :: int
  total_bytes :: int
  fetch_done :: bool
  last_msg_complete :: bool

definition vec_count :: "fetch_state \<Rightarrow> int" where
  "vec_count st = int (length (write_vec st))"

definition init_fetch :: fetch_state where
  "init_fetch =
     \<lparr>write_vec = [], send_msgs = (\<lambda>_. []), total_msg_count = 0, total_bytes = 0,
      fetch_done = False, last_msg_complete = False\<rparr>"

definition add_vec :: "nat \<Rightarrow> BuffType \<Rightarrow> int \<Rightarrow> fetch_state \<Rightarrow> fetch_state" where
  "add_vec p t len st =
     st\<lparr>write_vec := write_vec st @
           [\<lparr>iov_len = len, priority = p, index = length (send_msgs st p), buff_type = t\<rparr>]\<rparr>"

text \<open>
  The body of the inner \<^verbatim>\<open>while (msg != NULL)\<close> loop up to and including
  \<^verbatim>\<open>send_msgs[msg_count++] = msg; total_msg_count++\<close>, for the message \<open>msg\<close> at
  position \<open>pos\<close> of queue \<open>p\<close>.
\<close>

definition fetch_msg ::
  "cluster_consts \<Rightarrow> nat \<Rightarrow> nat \<Rightarrow> OutMessage \<Rightarrow> fetch_state \<Rightarrow> fetch_state" where
  "fetch_msg K p pos msg st =
     (let H = MSG_HEADER_LENGTH K;
          aligned = aligned_data_len (header msg);
          st1 = (if bytes_sent msg < H then
                   (add_vec p BUFF_TYPE_HEADER (H - bytes_sent msg) st)
                     \<lparr>total_bytes := total_bytes st + (H - bytes_sent msg)\<rparr>
                 else st);
          remain_len = (if bytes_sent msg < H then aligned
                        else (aligned + H) - bytes_sent msg);
          st2 =
            (if remain_len > 0 then
               (let pad_len = aligned - data_len (header msg);
                    remain_data_len = remain_len - pad_len;
                    st_d =
                      (if remain_data_len > 0 then
                         (if data_type msg = DATA_TYPE_OBJECT then
                            (let lens = get_iovec (blocks msg) 0
                                          (WRITEV_ARRAY_SIZE K - 1 - vec_count st1);
                                 read_bytes = sum_list lens
                             in (fold (add_vec p BUFF_TYPE_DATA) lens st1)
                                  \<lparr>total_bytes := total_bytes st1 + read_bytes,
                                   last_msg_complete := (read_bytes = remain_data_len)\<rparr>)
                          else
                            (add_vec p BUFF_TYPE_DATA remain_data_len st1)
                              \<lparr>total_bytes := total_bytes st1 + remain_data_len,
                               last_msg_complete := True\<rparr>)
                       else st1\<lparr>last_msg_complete := True\<rparr>)
                in
                if pad_len > 0 \<and> last_msg_complete st_d then
                  (let len = (if remain_data_len > 0 then pad_len else remain_len)
                   in (add_vec p BUFF_TYPE_PADDING len st_d)
                        \<lparr>total_bytes := total_bytes st_d + len\<rparr>)
                else st_d)
             else st1\<lparr>last_msg_complete := True\<rparr>)
      in
      st2\<lparr>send_msgs := (send_msgs st2)(p := send_msgs st2 p @ [pos]),
          total_msg_count := total_msg_count st2 + 1\<rparr>)"

text \<open>
  The inner loop over one queue, from the message at position \<open>pos\<close> on; the list
  argument is the rest of the queue from that position.
\<close>

fun fetch_queue ::
  "cluster_consts \<Rightarrow> nat \<Rightarrow> nat \<Rightarrow> nat \<Rightarrow> OutMessage list \<Rightarrow> fetch_state \<Rightarrow> fetch_state" where
  "fetch_queue K i p pos [] st = st"
| "fetch_queue K i p pos (msg # rest) st =
     (let st1 = fetch_msg K p pos msg st in
      if total_msg_count st1 = WRITEV_ITEM_ONCE K \<or>
         vec_count st1 \<ge> WRITEV_ARRAY_SIZE K - 2 \<or>
         total_bytes st1 \<ge> WRITE_MAX_COMBINE_BYTES K
      then st1\<lparr>fetch_done := True\<rparr>
      else if i = 0 then st1
      else fetch_queue K i p (Suc pos) rest st1)"

text \<open>The outer loop \<^verbatim>\<open>for (i=start; i<=PRIORITY_COUNT; i++)\<close>.\<close>

function fetch_loop ::
  "cluster_consts \<Rightarrow> SocketContext \<Rightarrow> nat \<Rightarrow> nat \<Rightarrow> fetch_state \<Rightarrow> fetch_state" where
  "fetch_loop K s i p st =
     (if i \<le> PRIORITY_COUNT then
        (let q = send_queues s p;
             st1 = (if queue_index s > 0 \<and> i = queue_index s + 1
                    then fetch_queue K i p 1 (tl q) st
                    else fetch_queue K i p 0 q st)
         in
         if fetch_done st1 then st1
         else fetch_loop K s (Suc i) (if i = 0 then 0 else Suc p) st1)
      else st)"
  by pat_completeness auto
termination
  by (relation "measure (\<lambda>(K, s, i, p, st). Suc PRIORITY_COUNT - i)") auto

declare fetch_loop.simps [simp del]

definition fetch :: "cluster_consts \<Rightarrow> SocketContext \<Rightarrow> fetch_state" where
  "fetch K s =
     fetch_loop K s (if queue_index s = 0 then 1 else 0) (queue_index s) init_fetch"

text \<open>
  The accounting walk over the iovec entries after a partial write. \<open>walk_queues\<close> are
  the send queues (the walk changes \<^verbatim>\<open>bytes_sent\<close> and the block chain of their
  messages), \<open>done_msgs p\<close> lists \<^verbatim>\<open>msgs[p].done_msgs\<close> as queue positions.
  Both branches of the walk do the same to the message with a different byte count
  (the whole entry, or what is left of the write): \<open>advance_msg\<close> is that update,
  \<^verbatim>\<open>consume\<close> for a data entry of an object payload, then \<^verbatim>\<open>bytes_sent += n\<close>.
\<close>

record walk_state =
  walk_queues :: "nat \<Rightarrow> OutMessage list"
  remain_bytes :: int
  done_msgs :: "nat \<Rightarrow> nat list"
  total_done_count :: int

definition advance_msg :: "iovec_entry \<Rightarrow> int \<Rightarrow> OutMessage \<Rightarrow> OutMessage" where
  "advance_msg e n msg =
     (let msg1 = (if data_type msg = DATA_TYPE_OBJECT \<and> buff_type e = BUFF_TYPE_DATA
                  then consume msg n else msg)
      in msg1\<lparr>bytes_sent := bytes_sent msg1 + n\<rparr>)"

fun account_walk ::
  "cluster_consts \<Rightarrow> (nat \<Rightarrow> nat list) \<Rightarrow> iovec_entry list \<Rightarrow> nat \<Rightarrow> walk_state
     \<Rightarrow> nat \<times> walk_state" where
  "account_walk K sm [] vi w = (vi, w)"
| "account_walk K sm (e # es) vi w =
     (let rb = remain_bytes w - iov_len e;
          p = priority e;
          pos = sm p ! index e;
          msg = walk_queues w p ! pos
      in
      if rb \<ge> 0 then
        (let msg2 = advance_msg e (iov_len e) msg;
             w1 = w\<lparr>walk_queues := (walk_queues w)(p := (walk_queues w p)[pos := msg2]),
                    remain_bytes := rb\<rparr>;
             w2 = (if bytes_sent msg2 \<ge> MSG_HEADER_LENGTH K + aligned_data_len (header msg2)
                   then w1\<lparr>done_msgs := (done_msgs w1)(p := done_msgs w1 p @ [pos]),
                           total_done_count := total_done_count w1 + 1\<rparr>
                   else w1)
         in account_walk K sm es (Suc vi) w2)
      else
        (let msg2 = advance_msg e (rb + iov_len e) msg
         in (vi, w\<lparr>walk_queues := (walk_queues w)(p := (walk_queues w p)[pos := msg2]),
                   remain_bytes := rb\<rparr>)))"

text \<open>
  The two closing loops: for every priority with done messages the head moves to the
  successor of the last done message (the tail becomes \<^verbatim>\<open>NULL\<close> with it when that
  is \<^verbatim>\<open>NULL\<close>), then every done message is released, priority by priority.
  Returns the context and the messages passed to \<^verbatim>\<open>release_out_message\<close>, in order.
\<close>

definition release_done ::
  "(nat \<Rightarrow> nat list) \<Rightarrow> int \<Rightarrow> SocketContext \<Rightarrow> SocketContext \<times> OutMessage list" where
  "release_done pDoneMsgs done_total s =
     (let advance = (\<lambda>i. if pDoneMsgs i = [] then send_queues s i
                          else drop (Suc (last (pDoneMsgs i))) (send_queues s i));
          s1 = s\<lparr>stats := (stats s)\<lparr>send_msg_count := send_msg_count (stats s) + done_total\<rparr>,
                 send_queues := (\<lambda>i. if i < PRIORITY_COUNT then advance i else send_queues s i)\<rparr>;
          released = concat (map (\<lambda>i. map (\<lambda>pos. send_queues s i ! pos) (pDoneMsgs i)) [0, 1, 2])
      in (s1, released))"

text \<open>
  \<^verbatim>\<open>deal_write_event\<close>. The outcome of the \<^verbatim>\<open>writev\<close> call is an input: its return
  value \<open>write_bytes\<close> and, when that is negative, \<open>errno\<close>. The call itself shows in
  \<open>call_writev_count\<close>, which the code increments right before it. Returns the result
  code, the socket context and the released messages.
\<close>

definition deal_write_event ::
  "cluster_consts \<Rightarrow> int \<Rightarrow> int \<Rightarrow> SocketContext \<Rightarrow> int \<times> SocketContext \<times> OutMessage list" where
  "deal_write_event K write_bytes errno s =
     (let f = fetch K s in
      if vec_count f = 0 then (EAGAIN, s, [])
      else
        (let s1 = s\<lparr>stats := (stats s)
                      \<lparr>send_retry_count := send_retry_count (stats s) + total_msg_count f,
                       call_writev_count := call_writev_count (stats s) + 1\<rparr>\<rparr>
         in
         if write_bytes = 0 then (ECONNRESET, s1, [])
         else if write_bytes < 0 then
           (if errno = EAGAIN \<or> errno = EWOULDBLOCK then (EAGAIN, s1, [])
            else if errno = EINTR then (0, s1, [])
            else ((if errno \<noteq> 0 then errno else EIO), s1, []))
         else
           (let s2 = s1\<lparr>stats := (stats s1)\<lparr>send_bytes := send_bytes (stats s1) + write_bytes\<rparr>\<rparr>;
                result = (if write_bytes = total_bytes f \<and> fetch_done f then 0 else EAGAIN)
            in
            if write_bytes = total_bytes f \<and> last_msg_complete f then
              (let (s3, released) =
                     release_done (send_msgs f) (total_msg_count f) (s2\<lparr>queue_index := 0\<rparr>)
               in (result, s3, released))
            else
              (let (vi, w) = account_walk K (send_msgs f) (write_vec f) 0
                               \<lparr>walk_queues = send_queues s2, remain_bytes = write_bytes,
                                done_msgs = (\<lambda>_. []), total_done_count = 0\<rparr>;
                   s3 = s2\<lparr>send_queues := walk_queues w,
                          queue_index := (if vi < length (write_vec f)
                                          then priority (write_vec f ! vi)
                                          else priority (write_vec f ! (vi - 1)))\<rparr>
               in
               if total_done_count w = 0 then (result, s3, [])
               else
                 (let (s4, released) = release_done (done_msgs w) (total_done_count w) s3
                  in (result, s4, released))))))"

subsection \<open>Framed read (\<^verbatim>\<open>deal_read_event\<close>)\<close>

text \<open>
  The reassembly state of a socket. Pointers into the current receive buffer are offsets
  from \<^verbatim>\<open>buffer->_data\<close>. \<open>reader_blocks\<close> is the chain \<^verbatim>\<open>reader.blocks\<close> of
  completed body blocks, each represented by its size; \<^verbatim>\<open>NULL\<close> is the empty list.
  While the chain is not empty the header of the frame in progress lies in an earlier
  buffer, which the first block keeps alive: \<open>kept_header\<close> is that header.
\<close>

record ReaderManager =
  msg_header :: int
  current :: int
  buff_end :: int
  reader_blocks :: "int list"
  recv_body_bytes :: int
  kept_header :: MsgHeader

definition ALIGN_BYTES :: int where "ALIGN_BYTES = 8"

text \<open>The three buffer macros; each takes a fresh buffer of \<^verbatim>\<open>read_buffer_size\<close> bytes.\<close>

definition ALLOC_READER_BUFFER :: "cluster_consts \<Rightarrow> ReaderManager \<Rightarrow> ReaderManager" where
  "ALLOC_READER_BUFFER K r = r\<lparr>current := 0, buff_end := read_buffer_size K\<rparr>"

definition INIT_READER :: "cluster_consts \<Rightarrow> ReaderManager \<Rightarrow> ReaderManager" where
  "INIT_READER K r = r\<lparr>current := 0, msg_header := 0, buff_end := read_buffer_size K\<rparr>"

definition MOVE_TO_NEW_BUFFER :: "cluster_consts \<Rightarrow> ReaderManager \<Rightarrow> int \<Rightarrow> ReaderManager" where
  "MOVE_TO_NEW_BUFFER K r msg_bytes =
     (let r1 = INIT_READER K r in r1\<lparr>current := current r1 + msg_bytes\<rparr>)"

definition append_to_blocks :: "ReaderManager \<Rightarrow> int \<Rightarrow> ReaderManager" where
  "append_to_blocks r current_body_bytes =
     r\<lparr>reader_blocks := reader_blocks r @ [current_body_bytes]\<rparr>"

text \<open>
  How a call ends: with a result code, or in \<^verbatim>\<open>ink_release_assert\<close>, which stops the
  process.
\<close>

datatype read_result = Returned int | Aborted

text \<open>
  One pass through the body of the \<^verbatim>\<open>while (1)\<close> loop of \<^verbatim>\<open>deal_read_event\<close>.
  \<open>peek off\<close> is the header that the bytes of the current buffer at offset \<open>off\<close>
  decode to. \<open>acc\<close> collects the frames handed to \<^verbatim>\<open>deal_message\<close> (header and
  block chain). The pass either returns from the function (\<open>Inl\<close>: how the call ends,
  the reader, the frames) or goes round the loop again after a complete frame (\<open>Inr\<close>).
\<close>

definition read_frame ::
  "cluster_consts \<Rightarrow> (int \<Rightarrow> MsgHeader) \<Rightarrow> int \<Rightarrow> ReaderManager
     \<Rightarrow> (MsgHeader \<times> int list) list
     \<Rightarrow> (read_result \<times> ReaderManager \<times> (MsgHeader \<times> int list) list)
         + (ReaderManager \<times> (MsgHeader \<times> int list) list)" where
  "read_frame K peek result r acc =
     (let H = MSG_HEADER_LENGTH K;
          bFirstBlock = (reader_blocks r = []);
          msg_bytes = (if bFirstBlock then current r - msg_header r else current r)
      in
      if bFirstBlock \<and> msg_bytes < H then
        Inl (Returned result,
             (if buff_end r - current r < 4 * 1024 then
                (if msg_bytes > 0 then MOVE_TO_NEW_BUFFER K r msg_bytes
                 else INIT_READER K r)
              else r),
             acc)
      else
        (let recv_bytes = (if bFirstBlock then msg_bytes - H
                           else recv_body_bytes r + msg_bytes);
             pHeader = (if bFirstBlock then peek (msg_header r) else kept_header r);
             aligned = aligned_data_len pHeader
         in
         if aligned > MAX_MSG_LENGTH K then Inl (Returned ENOSPC, r, acc)
         else if recv_bytes < aligned then
           (if recv_bytes + (buff_end r - current r) \<ge> aligned then
              Inl (Returned result, r, acc)
            else
              (let padding_body_bytes = recv_bytes - recv_body_bytes r;
                   recv_padding_len = recv_bytes - data_len pHeader;
                   current_true_body_bytes =
                     (if recv_padding_len > 0 then padding_body_bytes - recv_padding_len
                      else padding_body_bytes)
               in
               if func_id pHeader < 0 then
                 (if \<not> bFirstBlock then Inl (Returned EINVAL, r, acc)
                  else Inl (Returned result, MOVE_TO_NEW_BUFFER K r msg_bytes, acc))
               else if buff_end r - current r \<ge> 4 * 1024 then
                 Inl (Returned result, r, acc)
               else if recv_bytes mod ALIGN_BYTES \<noteq> 0 then
                 (if current r < buff_end r then Inl (Returned result, r, acc)
                  else Inl (Aborted, r, acc))
               else
                 (let r1 = (if current_true_body_bytes > 0
                            then append_to_blocks r current_true_body_bytes else r);
                      r2 = r1\<lparr>recv_body_bytes := recv_bytes\<rparr>;
                      r3 = (if bFirstBlock then
                              (if current_true_body_bytes > 0
                               then (ALLOC_READER_BUFFER K r2)\<lparr>kept_header := pHeader\<rparr>
                               else MOVE_TO_NEW_BUFFER K r2 msg_bytes)
                            else ALLOC_READER_BUFFER K r2)
                  in Inl (Returned result, r3, acc))))
         else
           (let padding_body_bytes = (if bFirstBlock then aligned
                                      else aligned - recv_body_bytes r);
                padding_len = aligned - data_len pHeader;
                current_true_body_bytes =
                  (if padding_len > 0 then
                     (if padding_body_bytes > padding_len
                      then padding_body_bytes - padding_len else 0)
                   else padding_body_bytes);
                r1 = (if current_true_body_bytes > 0
                      then append_to_blocks r current_true_body_bytes else r);
                acc1 = acc @ [(pHeader, reader_blocks r1)];
                r2 = r1\<lparr>reader_blocks := [],
                        recv_body_bytes := (if recv_body_bytes r1 > 0 then 0
                                            else recv_body_bytes r1)\<rparr>;
                r3 = r2\<lparr>msg_header := (if bFirstBlock
                                         then msg_header r + (H + padding_body_bytes)
                                         else padding_body_bytes)\<rparr>
            in Inr (r3, acc1))))"

text \<open>The loop itself. A run that never leaves it is \<open>None\<close>.\<close>

partial_function (option) read_loop ::
  "cluster_consts \<Rightarrow> (int \<Rightarrow> MsgHeader) \<Rightarrow> int \<Rightarrow> ReaderManager
     \<Rightarrow> (MsgHeader \<times> int list) list
     \<Rightarrow> (read_result \<times> ReaderManager \<times> (MsgHeader \<times> int list) list) option" where
  "read_loop K peek result r acc =
     (case read_frame K peek result r acc of
        Inl out \<Rightarrow> Some out
      | Inr next_frame \<Rightarrow> read_loop K peek result (fst next_frame) (snd next_frame))"

text \<open>
  \<^verbatim>\<open>deal_read_event\<close>. The outcome of the \<^verbatim>\<open>read\<close> call is an input
  (\<open>read_bytes\<close>, and \<open>errno\<close> when that is negative), as is the decoding \<open>peek\<close> of
  the buffer after the read.
\<close>

definition deal_read_event ::
  "cluster_consts \<Rightarrow> int \<Rightarrow> int \<Rightarrow> (int \<Rightarrow> MsgHeader) \<Rightarrow> ReaderManager
     \<Rightarrow> (read_result \<times> ReaderManager \<times> (MsgHeader \<times> int list) list) option" where
  "deal_read_event K read_bytes errno peek r =
     (if read_bytes = 0 then Some (Returned ECONNRESET, r, [])
      else if read_bytes < 0 then
        (if errno = EAGAIN \<or> errno = EWOULDBLOCK then Some (Returned EAGAIN, r, [])
         else if errno = EINTR then Some (Returned 0, r, [])
         else Some (Returned (if errno \<noteq> 0 then errno else EIO), r, []))
      else
        (let r1 = r\<lparr>current := current r + read_bytes\<rparr>;
             result = (if buff_end r1 - current r1 = 0 then 0 else EAGAIN)
         in read_loop K peek result r1 []))"



subsection \<open>Reconnection (\<^verbatim>\<open>connection.cc\<close>)\<close>

datatype ConnectState =
  STATE_NOT_CONNECT | STATE_CONNECTING | STATE_CONNECTED | STATE_SEND_DATA | STATE_RECV_DATA



text \<open>
  What the system calls of \<^verbatim>\<open>do_connect\<close> answer, in the order the function makes
  them; each constructor names the first call that does not succeed.
\<close>

datatype connect_env =
  SOCKET_FAILED | NONBLOCKING_FAILED | SETSOCKOPT_FAILED | INET_ATON_FAILED
  | CONNECT_SUCCEEDED | CONNECT_REFUSED | ATTACH_FAILED | CONNECT_IN_PROGRESS








text \<open>
  An invariant of the reassembly state: while body blocks are pending, the frame in
  progress has a non-negative \<^verbatim>\<open>func_id\<close>. It holds after \<^verbatim>\<open>INIT_READER\<close> (no
  blocks) and every pass of the loop keeps it.
\<close>

definition reader_inv :: "ReaderManager \<Rightarrow> bool" where
  "reader_inv r \<longleftrightarrow> (reader_blocks r \<noteq> [] \<longrightarrow> 0 \<le> func_id (kept_header r))"

subsection \<open>Well-formed messages\<close>

text \<open>
  The bytes of the payload that are already on the wire, according to \<^verbatim>\<open>bytes_sent\<close>.
\<close>

definition data_sent :: "cluster_consts \<Rightarrow> OutMessage \<Rightarrow> int" where
  "data_sent K m = min (max (bytes_sent m - MSG_HEADER_LENGTH K) 0) (data_len (header m))"

text \<open>
  A queued message is well formed when its lengths are ordered
  (\<open>0 \<le> data_len \<le> aligned_data_len\<close>), its cursor lies within the frame, and, for an
  object payload, the block chain holds exactly the payload bytes not yet sent.
\<close>

definition wf_msg :: "cluster_consts \<Rightarrow> OutMessage \<Rightarrow> bool" where
  "wf_msg K m \<longleftrightarrow>
     0 \<le> data_len (header m) \<and> data_len (header m) \<le> aligned_data_len (header m) \<and>
     0 \<le> bytes_sent m \<and> bytes_sent m \<le> msg_wire_bytes K m \<and>
     (data_type m = DATA_TYPE_OBJECT \<longrightarrow>
        (\<forall>b \<in> set (blocks m). 0 \<le> b) \<and>
        sum_list (blocks m) = data_len (header m) - data_sent K m)"

definition wf_queues :: "cluster_consts \<Rightarrow> SocketContext \<Rightarrow> bool" where
  "wf_queues K s \<longleftrightarrow>
     queue_index s < PRIORITY_COUNT \<and>
     (\<forall>p < PRIORITY_COUNT. \<forall>m \<in> set (send_queues s p). wf_msg K m)"

text \<open>
  The iovec entries that belong to the message at position \<open>pos\<close> of queue \<open>p\<close>, and
  what makes a run of entries fit a message: every entry is not empty, and applying
  any part of it keeps the message well formed.
\<close>

definition entries_of ::
  "(nat \<Rightarrow> nat list) \<Rightarrow> nat \<Rightarrow> nat \<Rightarrow> iovec_entry list \<Rightarrow> iovec_entry list" where
  "entries_of sm p pos es = filter (\<lambda>e. priority e = p \<and> sm p ! index e = pos) es"

fun seg_ok :: "cluster_consts \<Rightarrow> OutMessage \<Rightarrow> iovec_entry list \<Rightarrow> bool" where
  "seg_ok K m [] = True"
| "seg_ok K m (e # es) =
     (0 < iov_len e \<and>
      (\<forall>l. 0 \<le> l \<and> l \<le> iov_len e \<longrightarrow> wf_msg K (advance_msg e l m)) \<and>
      seg_ok K (advance_msg e (iov_len e) m) es)"

subsection \<open>Sample values\<close>

text \<open>
  A configuration and a few messages for evaluating the functions on concrete inputs.
  The receive buffer size is the one \<^verbatim>\<open>nio.cc\<close> sets (2 MiB); the other constants
  are sample values.
\<close>

definition sample_consts :: cluster_consts where
  "sample_consts =
     \<lparr>CLUSTER_MAJOR_VERSION = 3, CLUSTER_MINOR_VERSION = 2,
      MIN_CLUSTER_MAJOR_VERSION = 2, MIN_CLUSTER_MINOR_VERSION = 0,
      FUNC_ID_CLUSTER_HELLO_REQUEST = 61, FUNC_ID_CLUSTER_HELLO_RESPONSE = 62,
      SIZEOF_HelloMessage = 16, MSG_HEADER_LENGTH = 32, MAX_MSG_LENGTH = 4194304,
      WRITEV_ARRAY_SIZE = 128, WRITEV_ITEM_ONCE = 64, WRITE_MAX_COMBINE_BYTES = 65536,
      read_buffer_size = 2097152\<rparr>"

definition sample_hello :: "32 word \<Rightarrow> 32 word \<Rightarrow> 32 word \<Rightarrow> HelloMessage" where
  "sample_hello mj mn min_mj = \<lparr>major = mj, minor = mn, min_major = min_mj, min_minor = 0\<rparr>"

definition ping_msg :: OutMessage where
  "ping_msg =
     \<lparr>header = \<lparr>func_id = 1, data_len = 0, aligned_data_len = 0, msg_seq = 0\<rparr>,
      data_type = DATA_TYPE_BUFFER, blocks = [], bytes_sent = 0\<rparr>"

definition data_msg :: "int \<Rightarrow> int \<Rightarrow> OutMessage" where
  "data_msg n sent =
     \<lparr>header = \<lparr>func_id = 5, data_len = n, aligned_data_len = BYTE_ALIGN8 n, msg_seq = 1\<rparr>,
      data_type = DATA_TYPE_BUFFER, blocks = [], bytes_sent = sent\<rparr>"

definition object_msg :: "int list \<Rightarrow> OutMessage" where
  "object_msg bs =
     \<lparr>header = \<lparr>func_id = 6, data_len = sum_list bs,
                aligned_data_len = BYTE_ALIGN8 (sum_list bs), msg_seq = 2\<rparr>,
      data_type = DATA_TYPE_OBJECT, blocks = bs, bytes_sent = 0\<rparr>"

definition zero_stats :: Stats where
  "zero_stats =
     \<lparr>push_msg_count = 0, push_msg_bytes = 0, fail_msg_count = 0, fail_msg_bytes = 0,
      send_retry_count = 0, call_writev_count = 0, send_bytes = 0, send_msg_count = 0,
      drop_msg_count = 0, drop_bytes = 0\<rparr>"

definition sample_sock :: "OutMessage list \<Rightarrow> OutMessage list \<Rightarrow> OutMessage list \<Rightarrow> SocketContext" where
  "sample_sock high mid low =
     \<lparr>sock = 7, version = 4, queue_index = 0,
      send_queues = (\<lambda>i. if i = 0 then high else if i = 1 then mid else if i = 2 then low else []),
      stats = zero_stats, connect_type = CONNECT_TYPE_CLIENT, machine_dead = False\<rparr>"





section \<open>Verified properties\<close>

subsection \<open>Handshake\<close>

lemma hello_major_loop_returns_nonzero_min:
  assumes "hello_major_loop K mj min_mj pm = Some r"
  shows "min_mj \<noteq> 0"
  by (rule hello_major_loop.raw_induct
        [where P = "\<lambda>K mj min_mj pm r. min_mj \<noteq> 0", OF _ assms])
     (auto split: if_splits)

lemma hello_major_loop_zero: "hello_major_loop K mj 0 pm = None"
  using hello_major_loop_returns_nonzero_min[of K mj 0 pm]
  by (cases "hello_major_loop K mj 0 pm") auto

text \<open>
  With a peer minimum other than 0 the loop ends, and \<^verbatim>\<open>proto_major\<close> is the lowest
  common version (the last one the loop assigns).
\<close>

lemma hello_major_loop_value:
  assumes "min_mj \<noteq> 0"
  shows "hello_major_loop K mj min_mj pm =
     Some (if max min_mj (MIN_CLUSTER_MAJOR_VERSION K) \<le> min mj (CLUSTER_MAJOR_VERSION K)
           then sint (max min_mj (MIN_CLUSTER_MAJOR_VERSION K)) else pm)"
  using assms
proof (induction "unat mj" arbitrary: mj pm)
  case 0
  then have "mj = 0" by (simp add: unat_eq_0)
  with 0 have "\<not> min_mj \<le> mj" by (simp add: word_le_nat_alt unat_eq_0 word_neq_0_conv)
  then show ?case
    apply (subst hello_major_loop.simps)
    apply (auto simp: word_le_nat_alt word_less_nat_alt max_def min_def not_le)
    done
next
  case (Suc n)
  then have mjpos: "mj \<noteq> 0" by auto
  have u1: "unat (mj - 1) = n" using Suc(2) mjpos by (simp add: unat_minus_one)
  have u2: "unat (mj - 1) = unat mj - 1" using u1 Suc(2) by simp
  have u3: "0 < unat mj" using Suc(2) by simp
  define L where "L = max min_mj (MIN_CLUSTER_MAJOR_VERSION K)"
  define cmin where "cmin = MIN_CLUSTER_MAJOR_VERSION K"
  define cmax where "cmax = CLUSTER_MAJOR_VERSION K"
  show ?case
  proof (cases "min_mj \<le> mj")
    case False
    then show ?thesis
      apply (subst hello_major_loop.simps)
      apply (auto simp: word_le_nat_alt word_less_nat_alt max_def min_def not_le)
      done
  next
    case True
    have ih: "hello_major_loop K (mj - 1) min_mj p =
       Some (if L \<le> min (mj - 1) cmax then sint L else p)" for p
      using Suc(1)[of "mj - 1" p] u1 Suc(3) by (simp add: L_def cmax_def)
    have A: "L \<le> min (mj - 1) cmax \<Longrightarrow> L \<le> min mj cmax"
      using u2 u3 by (auto simp: word_le_nat_alt min_def split: if_splits)
    have B: "\<not> L \<le> min (mj - 1) cmax \<Longrightarrow> cmin \<le> mj \<Longrightarrow> mj \<le> cmax \<Longrightarrow> L = mj"
      using u2 u3 True
      by (auto simp: word_le_nat_alt word_unat_eq_iff min_def max_def L_def cmin_def
          split: if_splits)
    have B': "\<not> L \<le> min (mj - 1) cmax \<Longrightarrow> cmin \<le> mj \<Longrightarrow> mj \<le> cmax
              \<Longrightarrow> L \<le> min mj cmax"
      using u2 u3 True
      by (auto simp: word_le_nat_alt word_unat_eq_iff min_def max_def L_def cmin_def
          split: if_splits)
    have C: "\<not> L \<le> min (mj - 1) cmax \<Longrightarrow> \<not> (cmin \<le> mj \<and> mj \<le> cmax)
             \<Longrightarrow> \<not> L \<le> min mj cmax"
      using u2 u3 True
      by (auto simp: word_le_nat_alt word_unat_eq_iff min_def max_def L_def cmin_def
          split: if_splits)
    have "hello_major_loop K mj min_mj pm =
       Some (if L \<le> min (mj - 1) cmax then sint L
             else (if cmin \<le> mj \<and> mj \<le> cmax then sint mj else pm))"
      apply (subst hello_major_loop.simps)
      apply (simp only: True if_True ih)
      apply (simp add: cmin_def cmax_def)
      done
    also have "(if L \<le> min (mj - 1) cmax then sint L
             else (if cmin \<le> mj \<and> mj \<le> cmax then sint mj else pm)) =
        (if L \<le> min mj cmax then sint L else pm)"
      using A B B' C
      by (cases "L \<le> min (mj - 1) cmax"; cases "cmin \<le> mj \<and> mj \<le> cmax") auto
    finally show ?thesis by (simp add: L_def cmax_def)
  qed
qed

text \<open>
  Claim C1. The claim is that the negotiated major is the highest common version and
  that the function fails with \<^verbatim>\<open>EINVAL\<close> when there is none. The loop has no
  \<^verbatim>\<open>break\<close>, so it keeps the lowest common version: for our range 2..3 and a peer
  range 2..3 it yields major 2 (and minor 0), not 3. For a peer minimum of 0 the loop
  condition \<^verbatim>\<open>major >= 0\<close> on an unsigned value never fails and the function does
  not return.
\<close>

theorem deal_hello_message_picks_lowest_or_hangs:
  "deal_hello_message sample_consts CONNECT_TYPE_SERVER
     (fst (fill_send_buffer sample_consts 61), sample_hello 3 5 2) = Some (Negotiated 2 0 3 5)
   \<and> deal_hello_message sample_consts CONNECT_TYPE_SERVER
     (fst (fill_send_buffer sample_consts 61), sample_hello 3 5 0) = None"
  by (simp add: deal_hello_message_def fill_send_buffer_def sample_consts_def sample_hello_def
      hello_major_loop_zero hello_major_loop_value)

text \<open>
  Claim C6. The negotiation does not depend on the role: for every hello tuple \<open>h\<close>,
  the server reading it in a \<^verbatim>\<open>HELLO_REQUEST\<close> and the client reading it in a
  \<^verbatim>\<open>HELLO_RESPONSE\<close> get the same outcome. Two nodes with the same version constants
  send each other the same tuple (\<^verbatim>\<open>fill_send_buffer\<close>), so both compute the same
  negotiated pair or both reject. When the tuple's minimum major is not 0 the function
  returns, either \<^verbatim>\<open>EINVAL\<close> or a negotiated pair whose minor is the peer's minor if
  the negotiated major is the peer's major, and 0 otherwise.
\<close>

theorem hello_negotiation_symmetric:
  "deal_hello_message K CONNECT_TYPE_SERVER
      (fst (fill_send_buffer K (FUNC_ID_CLUSTER_HELLO_REQUEST K)), h) =
   deal_hello_message K CONNECT_TYPE_CLIENT
      (fst (fill_send_buffer K (FUNC_ID_CLUSTER_HELLO_RESPONSE K)), h)
   \<and> (min_major h \<noteq> 0 \<longrightarrow>
        (\<exists>r. deal_hello_message K CONNECT_TYPE_SERVER
                (fst (fill_send_buffer K (FUNC_ID_CLUSTER_HELLO_REQUEST K)), h) = Some r
           \<and> (r = Rejected EINVAL \<or>
               (\<exists>pm. r = Negotiated pm (if pm = sint (major h) then sint (minor h) else 0)
                             (major h) (minor h)))))"
  by (simp add: deal_hello_message_def fill_send_buffer_def hello_major_loop_value Let_def)

theorem hello_negotiation_symmetric_witness:
  "min_major (snd (fill_send_buffer sample_consts 61)) \<noteq> 0
   \<and> deal_hello_message sample_consts CONNECT_TYPE_SERVER (fill_send_buffer sample_consts 61)
     = Some (Negotiated 2 0 3 2)
   \<and> deal_hello_message sample_consts CONNECT_TYPE_CLIENT (fill_send_buffer sample_consts 62)
     = Some (Negotiated 2 0 3 2)"
  using hello_negotiation_symmetric [of sample_consts "snd (fill_send_buffer sample_consts 61)"]
  by (simp add: deal_hello_message_def fill_send_buffer_def sample_consts_def
      hello_major_loop_value)

subsection \<open>Reconnection\<close>










subsection \<open>Send queues\<close>

text \<open>
  Claim C3. \<^verbatim>\<open>push_to_send_queue(msg, priority, version)\<close>: when the version of the
  socket context differs from the caller's or the socket is closed (\<open>sock < 0\<close>), the
  call fails with \<^verbatim>\<open>EINVAL\<close>, every queue is unchanged, and \<open>fail_msg_count\<close> and
  \<open>fail_msg_bytes\<close> grow by 1 and by \<open>MSG_HEADER_LENGTH + aligned_data_len\<close>. Otherwise
  the call returns 0, the message is the new tail of the chosen queue, the other queues
  are unchanged, and the push counters grow instead.
\<close>

theorem push_to_send_queue_stale_or_append:
  "(version s \<noteq> v \<or> sock s < 0 \<longrightarrow>
      fst (push_to_send_queue K s m p v) = EINVAL
      \<and> fst (push_to_send_queue K s m p v) \<noteq> 0
      \<and> send_queues (snd (push_to_send_queue K s m p v)) = send_queues s
      \<and> fail_msg_count (stats (snd (push_to_send_queue K s m p v)))
           = fail_msg_count (stats s) + 1
      \<and> fail_msg_bytes (stats (snd (push_to_send_queue K s m p v)))
           = fail_msg_bytes (stats s) + (MSG_HEADER_LENGTH K + aligned_data_len (header m))
      \<and> push_msg_count (stats (snd (push_to_send_queue K s m p v))) = push_msg_count (stats s)
      \<and> push_msg_bytes (stats (snd (push_to_send_queue K s m p v))) = push_msg_bytes (stats s))
   \<and> (\<not> (version s \<noteq> v \<or> sock s < 0) \<longrightarrow>
      fst (push_to_send_queue K s m p v) = 0
      \<and> send_queues (snd (push_to_send_queue K s m p v)) p = send_queues s p @ [m]
      \<and> queue_tail (send_queues (snd (push_to_send_queue K s m p v)) p) = Some m
      \<and> (\<forall>q. q \<noteq> p \<longrightarrow>
            send_queues (snd (push_to_send_queue K s m p v)) q = send_queues s q)
      \<and> push_msg_count (stats (snd (push_to_send_queue K s m p v)))
           = push_msg_count (stats s) + 1
      \<and> push_msg_bytes (stats (snd (push_to_send_queue K s m p v)))
           = push_msg_bytes (stats s) + (MSG_HEADER_LENGTH K + aligned_data_len (header m))
      \<and> fail_msg_count (stats (snd (push_to_send_queue K s m p v))) = fail_msg_count (stats s)
      \<and> fail_msg_bytes (stats (snd (push_to_send_queue K s m p v))) = fail_msg_bytes (stats s))"
  by (simp add: push_to_send_queue_def msg_wire_bytes_def queue_tail_def EINVAL_def Let_def)

theorem push_to_send_queue_stale_or_append_witness:
  "version ((sample_sock [ping_msg] [] [])\<lparr>sock := - 1\<rparr>) = 4
   \<and> sock ((sample_sock [ping_msg] [] [])\<lparr>sock := - 1\<rparr>) < 0
   \<and> fst (push_to_send_queue sample_consts ((sample_sock [ping_msg] [] [])\<lparr>sock := - 1\<rparr>)
           (data_msg 100 0) 0 4) = EINVAL
   \<and> version (sample_sock [ping_msg] [] []) \<noteq> 3
   \<and> fst (push_to_send_queue sample_consts (sample_sock [ping_msg] [] []) (data_msg 100 0) 0 3)
        = EINVAL
   \<and> version (sample_sock [ping_msg] [] []) = 4
   \<and> 0 \<le> sock (sample_sock [ping_msg] [] [])
   \<and> fst (push_to_send_queue sample_consts (sample_sock [ping_msg] [] []) (data_msg 100 0) 0 4) = 0
   \<and> send_queues (snd (push_to_send_queue sample_consts (sample_sock [ping_msg] [] [])
          (data_msg 100 0) 0 4)) 0 = [ping_msg, data_msg 100 0]"
  using push_to_send_queue_stale_or_append [of "(sample_sock [ping_msg] [] [])\<lparr>sock := - 1\<rparr>" 4
      sample_consts "data_msg 100 0" 0]
    push_to_send_queue_stale_or_append [of "sample_sock [ping_msg] [] []" 3
      sample_consts "data_msg 100 0" 0]
    push_to_send_queue_stale_or_append [of "sample_sock [ping_msg] [] []" 4
      sample_consts "data_msg 100 0" 0]
  by (simp add: sample_sock_def)

text \<open>
  Claim C5. \<^verbatim>\<open>insert_into_send_queue_head(msg, priority)\<close>: into an empty queue the
  message becomes head and tail; before a head with \<open>bytes_sent = 0\<close> it is prepended;
  behind a head that is partly sent it is spliced in right after the head, which stays
  the head, and it becomes the tail when the head had no successor. The other queues
  are unchanged.
\<close>

theorem insert_into_send_queue_head_position:
  "(send_queues s p = [] \<longrightarrow>
      send_queues (snd (insert_into_send_queue_head K s m p)) p = [m]
      \<and> queue_head (send_queues (snd (insert_into_send_queue_head K s m p)) p) = Some m
      \<and> queue_tail (send_queues (snd (insert_into_send_queue_head K s m p)) p) = Some m)
   \<and> (\<forall>h rest. send_queues s p = h # rest \<and> bytes_sent h = 0 \<longrightarrow>
      send_queues (snd (insert_into_send_queue_head K s m p)) p = m # h # rest
      \<and> queue_head (send_queues (snd (insert_into_send_queue_head K s m p)) p) = Some m
      \<and> queue_tail (send_queues (snd (insert_into_send_queue_head K s m p)) p)
           = queue_tail (send_queues s p))
   \<and> (\<forall>h rest. send_queues s p = h # rest \<and> bytes_sent h \<noteq> 0 \<longrightarrow>
      send_queues (snd (insert_into_send_queue_head K s m p)) p = h # m # rest
      \<and> queue_head (send_queues (snd (insert_into_send_queue_head K s m p)) p) = Some h
      \<and> queue_tail (send_queues (snd (insert_into_send_queue_head K s m p)) p)
           = (if rest = [] then Some m else queue_tail (send_queues s p)))
   \<and> (\<forall>q. q \<noteq> p \<longrightarrow>
        send_queues (snd (insert_into_send_queue_head K s m p)) q = send_queues s q)"
  by (auto simp: insert_into_send_queue_head_def queue_head_def queue_tail_def Let_def)

theorem insert_into_send_queue_head_position_witness:
  "send_queues (sample_sock [] [] []) 0 = []
   \<and> send_queues (snd (insert_into_send_queue_head sample_consts (sample_sock [] [] [])
         ping_msg 0)) 0 = [ping_msg]
   \<and> send_queues (sample_sock [data_msg 100 0, data_msg 8 0] [] []) 0
        = data_msg 100 0 # [data_msg 8 0]
   \<and> bytes_sent (data_msg 100 0) = 0
   \<and> send_queues (snd (insert_into_send_queue_head sample_consts
         (sample_sock [data_msg 100 0, data_msg 8 0] [] []) ping_msg 0)) 0
        = [ping_msg, data_msg 100 0, data_msg 8 0]
   \<and> send_queues (sample_sock [data_msg 100 40, data_msg 8 0] [] []) 0
        = data_msg 100 40 # [data_msg 8 0]
   \<and> bytes_sent (data_msg 100 40) \<noteq> 0
   \<and> send_queues (snd (insert_into_send_queue_head sample_consts
         (sample_sock [data_msg 100 40, data_msg 8 0] [] []) ping_msg 0)) 0
        = [data_msg 100 40, ping_msg, data_msg 8 0]
   \<and> queue_tail (send_queues (snd (insert_into_send_queue_head sample_consts
         (sample_sock [data_msg 100 40] [] []) ping_msg 0)) 0) = Some ping_msg"
proof -
  have q: "send_queues (sample_sock a b c) 0 = a" for a b c
    by (simp add: sample_sock_def)
  have b: "bytes_sent (data_msg n k) = k" for n k
    by (simp add: data_msg_def)
  note t = insert_into_send_queue_head_position [where K = sample_consts and m = ping_msg
      and p = 0]
  from t [of "sample_sock [] [] []"] q
  have 1: "send_queues (snd (insert_into_send_queue_head sample_consts (sample_sock [] [] [])
         ping_msg 0)) 0 = [ping_msg]" by blast
  from t [of "sample_sock [data_msg 100 0, data_msg 8 0] [] []"] q b
  have 2: "send_queues (snd (insert_into_send_queue_head sample_consts
         (sample_sock [data_msg 100 0, data_msg 8 0] [] []) ping_msg 0)) 0
        = [ping_msg, data_msg 100 0, data_msg 8 0]" by simp
  from t [of "sample_sock [data_msg 100 40, data_msg 8 0] [] []"] q b
  have 3: "send_queues (snd (insert_into_send_queue_head sample_consts
         (sample_sock [data_msg 100 40, data_msg 8 0] [] []) ping_msg 0)) 0
        = [data_msg 100 40, ping_msg, data_msg 8 0]" by simp
  from t [of "sample_sock [data_msg 100 40] [] []"] q b
  have 4: "queue_tail (send_queues (snd (insert_into_send_queue_head sample_consts
         (sample_sock [data_msg 100 40] [] []) ping_msg 0)) 0) = Some ping_msg"
    by (simp add: queue_tail_def)
  show ?thesis using 1 2 3 4 q b by simp
qed

text \<open>
  Claim C9. \<^verbatim>\<open>insert_into_send_queue_head\<close> checks neither the version nor the socket:
  for every socket context, message and priority it returns 0, links the message (the
  queue grows by one and holds it) and increments \<open>push_msg_count\<close> and
  \<open>push_msg_bytes\<close>; version, socket and fail counters are untouched. So it is with a
  socket that is closed and whose queues were purged (version advanced by
  \<^verbatim>\<open>clear_send_queue\<close>), where \<^verbatim>\<open>push_to_send_queue\<close> with the old version fails.
\<close>

theorem insert_into_send_queue_head_unconditional:
  "fst (insert_into_send_queue_head K s m p) = 0
   \<and> m \<in> set (send_queues (snd (insert_into_send_queue_head K s m p)) p)
   \<and> length (send_queues (snd (insert_into_send_queue_head K s m p)) p)
        = Suc (length (send_queues s p))
   \<and> push_msg_count (stats (snd (insert_into_send_queue_head K s m p)))
        = push_msg_count (stats s) + 1
   \<and> push_msg_bytes (stats (snd (insert_into_send_queue_head K s m p)))
        = push_msg_bytes (stats s) + (MSG_HEADER_LENGTH K + aligned_data_len (header m))
   \<and> fail_msg_count (stats (snd (insert_into_send_queue_head K s m p))) = fail_msg_count (stats s)
   \<and> version (snd (insert_into_send_queue_head K s m p)) = version s
   \<and> sock (snd (insert_into_send_queue_head K s m p)) = sock s
   \<and> fst (insert_into_send_queue_head K ((fst (clear_send_queue K s))\<lparr>sock := - 1\<rparr>) m p) = 0
   \<and> version ((fst (clear_send_queue K s))\<lparr>sock := - 1\<rparr>) = version s + 3
   \<and> fst (push_to_send_queue K ((fst (clear_send_queue K s))\<lparr>sock := - 1\<rparr>) m p (version s))
        = EINVAL"
  by (auto simp: insert_into_send_queue_head_def push_to_send_queue_def clear_send_queue_def
      msg_wire_bytes_def Let_def split: list.splits)

subsection \<open>Batched write\<close>

lemma fetch_loop_empty:
  "\<forall>p < PRIORITY_COUNT. send_queues s p = [] \<Longrightarrow>
   (if i = 0 then p < PRIORITY_COUNT else Suc p = i) \<Longrightarrow> fetch_loop K s i p st = st"
proof (induction K s i p st rule: fetch_loop.induct)
  case (1 K s i p st)
  show ?case
  proof (cases "i \<le> PRIORITY_COUNT")
    case False
    then show ?thesis by (subst fetch_loop.simps) simp
  next
    case True
    with 1(3) have pb: "p < PRIORITY_COUNT" by (auto split: if_splits)
    with 1(2) have q: "send_queues s p = []" by simp
    have st1: "(if queue_index s > 0 \<and> i = queue_index s + 1
                    then fetch_queue K i p 1 (tl (send_queues s p)) st
                    else fetch_queue K i p 0 (send_queues s p) st) = st"
      by (simp add: q)
    show ?thesis
    proof (cases "fetch_done st")
      case True
      then show ?thesis using \<open>i \<le> PRIORITY_COUNT\<close>
        by (subst fetch_loop.simps) (simp add: q)
    next
      case False
      have "fetch_loop K s (Suc i) (if i = 0 then 0 else Suc p) st = st"
        using 1(1)[OF True refl refl, unfolded st1, OF False 1(2)] 1(3)
        by (auto split: if_splits)
      then show ?thesis using True False
        by (subst fetch_loop.simps) (simp only: Let_def st1 if_True if_False)
    qed
  qed
qed

text \<open>
  Claim C10. When the three send queues are empty (and \<open>queue_index\<close> is one of the
  three priorities), \<^verbatim>\<open>deal_write_event\<close> assembles no iovec entry and returns
  \<^verbatim>\<open>EAGAIN\<close> with the socket context exactly as it was: no queue, no
  \<open>queue_index\<close>, no \<open>bytes_sent\<close> and no counter changes (so \<open>call_writev_count\<close>,
  incremented before every \<^verbatim>\<open>writev\<close>, stands still), nothing is released, and
  the result does not depend on what \<^verbatim>\<open>writev\<close> would have answered.
\<close>

theorem deal_write_event_empty_queues:
  assumes "\<forall>p < PRIORITY_COUNT. send_queues s p = []" and "queue_index s < PRIORITY_COUNT"
  shows "write_vec (fetch K s) = [] \<and> deal_write_event K write_bytes errno s = (EAGAIN, s, [])"
proof -
  have "fetch K s = init_fetch"
    unfolding fetch_def using assms(2) by (intro fetch_loop_empty [OF assms(1)]) auto
  then show ?thesis
    by (simp add: deal_write_event_def vec_count_def init_fetch_def)
qed

theorem deal_write_event_empty_queues_witness:
  "send_queues (sample_sock [] [] []) 0 = []
   \<and> send_queues (sample_sock [] [] []) 1 = []
   \<and> send_queues (sample_sock [] [] []) 2 = []
   \<and> queue_index (sample_sock [] [] []) < PRIORITY_COUNT
   \<and> deal_write_event sample_consts 5 0 (sample_sock [] [] [])
        = (EAGAIN, sample_sock [] [] [], [])
   \<and> call_writev_count (stats (fst (snd (deal_write_event sample_consts 5 0
        (sample_sock [] [] []))))) = 0"
proof -
  have a: "\<forall>p < PRIORITY_COUNT. send_queues (sample_sock [] [] []) p = []"
    by (simp add: sample_sock_def)
  have b: "queue_index (sample_sock [] [] []) < PRIORITY_COUNT"
    by (simp add: sample_sock_def PRIORITY_COUNT_def)
  have c: "call_writev_count (stats (sample_sock [] [] [])) = 0"
    by (simp add: sample_sock_def zero_stats_def)
  have d: "send_queues (sample_sock [] [] []) i = []" for i
    by (simp add: sample_sock_def)
  from deal_write_event_empty_queues [OF a b, of sample_consts 5 0] b c d
  show ?thesis by simp
qed

lemma fst_release_done_triple:
  "fst (case release_done d n s of (s3, released) \<Rightarrow> (result, s3, released)) = result"
  by (simp split: prod.splits)

text \<open>
  Claim C2, amended. \<^verbatim>\<open>deal_write_event\<close> returns 0 exactly when an iovec was
  assembled and either \<^verbatim>\<open>writev\<close> wrote the whole batch while a stop condition had
  ended the assembly (\<open>fetch_done\<close>), or \<^verbatim>\<open>writev\<close> failed with \<^verbatim>\<open>EINTR\<close> (the
  caller's loop then retries at once). Every other result is \<^verbatim>\<open>EAGAIN\<close>,
  \<^verbatim>\<open>ECONNRESET\<close> (for a \<^verbatim>\<open>writev\<close> of 0 bytes) or the \<^verbatim>\<open>errno\<close> of the failed
  \<^verbatim>\<open>writev\<close> (\<^verbatim>\<open>EIO\<close> when that is 0).
\<close>

theorem deal_write_event_zero_iff:
  "(fst (deal_write_event K write_bytes errno s) = 0) =
     (vec_count (fetch K s) \<noteq> 0 \<and>
      ((0 < write_bytes \<and> write_bytes = total_bytes (fetch K s) \<and> fetch_done (fetch K s))
       \<or> (write_bytes < 0 \<and> errno = EINTR)))
   \<and> (fst (deal_write_event K write_bytes errno s) = 0
       \<or> fst (deal_write_event K write_bytes errno s) = EAGAIN
       \<or> (write_bytes = 0 \<and> fst (deal_write_event K write_bytes errno s) = ECONNRESET)
       \<or> (write_bytes < 0
            \<and> fst (deal_write_event K write_bytes errno s) = (if errno \<noteq> 0 then errno else EIO)))"
  by (auto simp: deal_write_event_def Let_def EAGAIN_def EINTR_def EWOULDBLOCK_def
      ECONNRESET_def EIO_def split: prod.splits)

lemma fetch_one_ping:
  "fetch sample_consts (sample_sock [ping_msg] [] []) =
     \<lparr>write_vec = [\<lparr>iov_len = 32, priority = 0, index = 0, buff_type = BUFF_TYPE_HEADER\<rparr>],
      send_msgs = (\<lambda>_. [])(0 := [0]), total_msg_count = 1, total_bytes = 32,
      fetch_done = False, last_msg_complete = True\<rparr>"
  by (simp add: fetch_def fetch_loop.simps fetch_msg_def add_vec_def vec_count_def
      init_fetch_def sample_sock_def sample_consts_def ping_msg_def PRIORITY_COUNT_def Let_def)

text \<open>
  Claim C2 as stated says that 0 is returned only for a fully flushed batch with
  \<open>fetch_done\<close>. One queued ping and a \<^verbatim>\<open>writev\<close> interrupted by a signal: the batch
  is not flushed, \<open>fetch_done\<close> is false, and the result is 0.
\<close>

theorem deal_write_event_eintr_counterexample:
  "\<not> (- 1 = total_bytes (fetch sample_consts (sample_sock [ping_msg] [] []))
        \<and> fetch_done (fetch sample_consts (sample_sock [ping_msg] [] [])))
   \<and> fst (deal_write_event sample_consts (- 1) EINTR (sample_sock [ping_msg] [] [])) = 0"
  by (simp add: deal_write_event_def fetch_one_ping vec_count_def EINTR_def EAGAIN_def
      EWOULDBLOCK_def Let_def)

subsection \<open>Framed read\<close>

lemma read_frame_returns_no_einval:
  "read_frame K peek result r acc = Inl out \<Longrightarrow> reader_inv r \<Longrightarrow> result \<noteq> EINVAL \<Longrightarrow>
     fst out \<noteq> Returned EINVAL \<and> reader_inv (fst (snd out))"
  unfolding read_frame_def Let_def
  by (auto simp: reader_inv_def MOVE_TO_NEW_BUFFER_def INIT_READER_def ALLOC_READER_BUFFER_def
      append_to_blocks_def ENOSPC_def EINVAL_def Let_def split: if_splits)

lemma read_frame_next_inv:
  "read_frame K peek result r acc = Inr (r', acc') \<Longrightarrow> reader_inv r'"
  unfolding read_frame_def Let_def
  by (auto simp: reader_inv_def split: if_splits)

lemma read_loop_never_einval:
  assumes "read_loop K peek result r acc = Some out"
  shows "reader_inv r \<longrightarrow> result \<noteq> EINVAL \<longrightarrow>
         fst out \<noteq> Returned EINVAL \<and> reader_inv (fst (snd out))"
  by (rule read_loop.raw_induct
        [where P = "\<lambda>K peek result r acc out. reader_inv r \<longrightarrow> result \<noteq> EINVAL \<longrightarrow>
         fst out \<noteq> Returned EINVAL \<and> reader_inv (fst (snd out))", OF _ assms])
     (auto split: sum.splits dest: read_frame_returns_no_einval read_frame_next_inv)

text \<open>
  The invariant holds after \<^verbatim>\<open>INIT_READER\<close> and every call keeps it: body blocks
  are only ever chained for frames with \<^verbatim>\<open>func_id >= 0\<close>. In such a state a read
  that brought data does not answer \<^verbatim>\<open>EINVAL\<close>.
\<close>

lemma deal_read_event_never_einval:
  assumes "deal_read_event K read_bytes errno peek r = Some out"
    and "0 < read_bytes" and "reader_inv r"
  shows "fst out \<noteq> Returned EINVAL \<and> reader_inv (fst (snd out))"
proof -
  let ?r1 = "r\<lparr>current := current r + read_bytes\<rparr>"
  let ?res = "if buff_end ?r1 - current ?r1 = 0 then 0 else EAGAIN"
  have l: "read_loop K peek ?res ?r1 [] = Some out"
    using assms(1,2) by (simp add: deal_read_event_def Let_def)
  have i: "reader_inv ?r1" using assms(3) by (simp add: reader_inv_def)
  have e: "?res \<noteq> EINVAL" by (simp add: EAGAIN_def EINVAL_def)
  from read_loop_never_einval [OF l] i e show ?thesis by blast
qed







end
